theory Spec2Isabelle
  imports Complex_Main
begin

section \<open>Data model\<close>

text \<open>
  The module \<^verbatim>\<open>daug.py\<close> transforms pixel arrays with numpy. An array of rank 3 carries
  its shape \<open>(ht, wd, ch)\<close> and its elements as rows of pixels, a pixel being the list of
  its channel values. The shape is kept beside the elements because numpy keeps it when
  an extent is zero, and because index checks are made against it.
\<close>

datatype error = TypeError | ValueError | IndexError | AttributeError

record 'a array3 =
  ht :: nat
  wd :: nat
  ch :: nat
  rows :: "'a list list list"

definition well_formed :: "'a array3 \<Rightarrow> bool" where
  "well_formed m \<longleftrightarrow> length (rows m) = ht m \<and>
     list_all (\<lambda>r. length r = wd m \<and> list_all (\<lambda>p. length p = ch m) r) (rows m)"

text \<open>
  An array of any rank: rank 2 with shape \<open>(h, w)\<close> and rows of scalars, rank 3, or
  another rank (shape and flat elements).
\<close>

datatype 'a ndarray =
    Rank2 nat nat "'a list list"
  | Rank3 "'a array3"
  | RankOther "nat list" "'a list"

text \<open>
  What a caller can pass as \<^verbatim>\<open>img\<close>: a numpy array, or an object of another type (a nested
  list, a PIL image) given by the name of its type and the array \<^verbatim>\<open>np.array\<close> makes of it.
\<close>

datatype 'a pyobj =
    Ndarray "'a ndarray"
  | ArrayLike string "'a ndarray"

fun type_name :: "'a pyobj \<Rightarrow> string" where
  "type_name (Ndarray a) = ''numpy.ndarray''"
| "type_name (ArrayLike t a) = t"

fun payload :: "'a pyobj \<Rightarrow> 'a ndarray" where
  "payload (Ndarray a) = a"
| "payload (ArrayLike t a) = a"

text \<open>
  The second argument of Python's \<^verbatim>\<open>isinstance\<close>: a type, or an object that is not a type.
  \<^verbatim>\<open>np.array\<close> is a built-in function; the array type is \<^verbatim>\<open>np.ndarray\<close>.
\<close>

datatype classinfo = PyType string | PyFunction string

definition np_array :: classinfo where
  "np_array = PyFunction ''numpy.array''"

definition np_ndarray :: classinfo where
  "np_ndarray = PyType ''numpy.ndarray''"

fun isinstance :: "'a pyobj \<Rightarrow> classinfo \<Rightarrow> error + bool" where
  "isinstance obj (PyType t) = Inr (type_name obj = t)"
| "isinstance obj (PyFunction f) = Inl TypeError"

definition bind :: "error + 'a \<Rightarrow> ('a \<Rightarrow> error + 'b) \<Rightarrow> error + 'b" where
  "bind m f = (case m of Inl e \<Rightarrow> Inl e | Inr x \<Rightarrow> f x)"

section \<open>The numpy operations the module calls\<close>

definition np_array_call :: "'a pyobj \<Rightarrow> error + 'a ndarray" where
  \<comment> \<open>\<^verbatim>\<open>np.array(img)\<close>: a new array with the elements of \<^verbatim>\<open>img\<close>\<close>
  "np_array_call img = Inr (payload img)"

definition np_dstack3 :: "nat \<Rightarrow> nat \<Rightarrow> 'a list list \<Rightarrow> 'a array3" where
  \<comment> \<open>\<^verbatim>\<open>np.dstack([img, img, img])\<close> of a rank 2 array\<close>
  "np_dstack3 h w rs = \<lparr>ht = h, wd = w, ch = 3, rows = map (map (\<lambda>v. [v, v, v])) rs\<rparr>"

definition np_flipud :: "'a array3 \<Rightarrow> 'a array3" where
  "np_flipud m = m\<lparr>rows := rev (rows m)\<rparr>"

definition np_fliplr :: "'a array3 \<Rightarrow> 'a array3" where
  "np_fliplr m = m\<lparr>rows := map rev (rows m)\<rparr>"

definition swap01 :: "'a array3 \<Rightarrow> 'a array3" where
  \<comment> \<open>\<^verbatim>\<open>transpose(m, [1, 0, 2])\<close>\<close>
  "swap01 m = \<lparr>ht = wd m, wd = ht m, ch = ch m,
               rows = map (\<lambda>j. map (\<lambda>r. r ! j) (rows m)) [0..<wd m]\<rparr>"

definition np_rot90 :: "'a array3 \<Rightarrow> int \<Rightarrow> 'a array3" where
  \<comment> \<open>\<^verbatim>\<open>np.rot90(m, k)\<close> in the plane of axes 0 and 1, as numpy implements it\<close>
  "np_rot90 m k =
     (let k = k mod 4 in
      if k = 0 then m
      else if k = 2 then np_fliplr (np_flipud m)
      else if k = 1 then swap01 (np_fliplr m)
      else np_fliplr (swap01 m))"

definition roll_list :: "'b list \<Rightarrow> int \<Rightarrow> 'b list" where
  \<comment> \<open>\<^verbatim>\<open>np.roll\<close> along one axis: element \<open>i\<close> moves to \<open>(i + shift) mod n\<close>\<close>
  "roll_list xs shift =
     (let n = length xs;
          offset = nat (shift mod int (if n = 0 then 1 else n))
      in drop (n - offset) xs @ take (n - offset) xs)"

definition np_roll0 :: "'a array3 \<Rightarrow> int \<Rightarrow> 'a array3" where
  "np_roll0 m shift = m\<lparr>rows := roll_list (rows m) shift\<rparr>"

definition np_roll1 :: "'a array3 \<Rightarrow> int \<Rightarrow> 'a array3" where
  "np_roll1 m shift = m\<lparr>rows := map (\<lambda>r. roll_list r shift) (rows m)\<rparr>"

text \<open>
  A slice \<^verbatim>\<open>a:b\<close> of an axis of extent \<open>n\<close>: Python adds \<open>n\<close> to a negative bound and
  clips both bounds to \<open>[0, n]\<close>; the slice is empty when the stop is not after the start.
\<close>

definition slice_bound :: "nat \<Rightarrow> int \<Rightarrow> nat" where
  "slice_bound n i = (if i < 0 then nat (max (i + int n) 0) else min (nat i) n)"

definition slice_list :: "nat \<Rightarrow> 'b list \<Rightarrow> int \<Rightarrow> int \<Rightarrow> 'b list" where
  "slice_list n xs a b = take (slice_bound n b - slice_bound n a) (drop (slice_bound n a) xs)"

definition np_slice :: "'a array3 \<Rightarrow> int \<times> int \<Rightarrow> int \<times> int \<Rightarrow> 'a array3" where
  \<comment> \<open>\<^verbatim>\<open>img[r0:r1, c0:c1, :]\<close>\<close>
  "np_slice m rb cb =
     \<lparr>ht = slice_bound (ht m) (snd rb) - slice_bound (ht m) (fst rb),
      wd = slice_bound (wd m) (snd cb) - slice_bound (wd m) (fst cb),
      ch = ch m,
      rows = map (\<lambda>r. slice_list (wd m) r (fst cb) (snd cb))
                 (slice_list (ht m) (rows m) (fst rb) (snd rb))\<rparr>"

text \<open>
  An integer index \<open>i\<close> into an axis of extent \<open>n\<close>: valid from \<open>-n\<close> to \<open>n - 1\<close>, a
  negative one counting from the end; anything else raises IndexError.
\<close>

definition py_index :: "nat \<Rightarrow> int \<Rightarrow> error + nat" where
  "py_index n i =
     (if i < - int n \<or> int n \<le> i then Inl IndexError
      else Inr (nat (if i < 0 then i + int n else i)))"

definition copy_row :: "'a array3 \<Rightarrow> int \<Rightarrow> int \<Rightarrow> error + 'a array3" where
  \<comment> \<open>\<^verbatim>\<open>img[dst, :, :] = img[src, :, :]\<close>: the right-hand side is read first\<close>
  "copy_row img dst src =
     bind (py_index (ht img) src) (\<lambda>s.
     bind (py_index (ht img) dst) (\<lambda>d.
       Inr (img\<lparr>rows := (rows img)[d := rows img ! s]\<rparr>)))"

definition copy_col :: "'a array3 \<Rightarrow> int \<Rightarrow> int \<Rightarrow> error + 'a array3" where
  \<comment> \<open>\<^verbatim>\<open>img[:, dst, :] = img[:, src, :]\<close>\<close>
  "copy_col img dst src =
     bind (py_index (wd img) src) (\<lambda>s.
     bind (py_index (wd img) dst) (\<lambda>d.
       Inr (img\<lparr>rows := map (\<lambda>r. r[d := r ! s]) (rows img)\<rparr>)))"

fun for_range :: "nat list \<Rightarrow> (nat \<Rightarrow> 's \<Rightarrow> error + 's) \<Rightarrow> 's \<Rightarrow> error + 's" where
  \<comment> \<open>a \<^verbatim>\<open>for\<close> loop whose body may raise\<close>
  "for_range [] body s = Inr s"
| "for_range (i # is) body s = bind (body i s) (for_range is body)"

section \<open>The normalizer\<close>

definition force_RGB_shape :: "'a ndarray \<Rightarrow> 'a array3 option" where
  \<comment> \<open>lines 26 to 30 of \<^verbatim>\<open>_force_RGB_array\<close>; \<open>None\<close> is Python's \<^verbatim>\<open>None\<close>, returned by
      falling off the end of the function\<close>
  "force_RGB_shape img =
     (case img of
        Rank3 a \<Rightarrow> Some a
      | Rank2 h w rs \<Rightarrow> Some (np_dstack3 h w rs)
      | RankOther sh xs \<Rightarrow> None)"

definition force_RGB_array :: "'a pyobj \<Rightarrow> error + 'a array3 option" where
  \<comment> \<open>\<^verbatim>\<open>_force_RGB_array\<close>: the test of line 24 is \<^verbatim>\<open>isinstance(img, np.array)\<close>\<close>
  "force_RGB_array img =
     bind (isinstance img np_array) (\<lambda>is_array.
     bind (if \<not> is_array then np_array_call img else Inr (payload img)) (\<lambda>img.
       Inr (force_RGB_shape img)))"

definition normalized :: "error \<Rightarrow> ('a array3 \<Rightarrow> error + 'b) \<Rightarrow> 'a pyobj \<Rightarrow> error + 'b" where
  \<comment> \<open>\<^verbatim>\<open>img = _force_RGB_array(img)\<close> followed by the rest of a transform; \<open>e\<close> is what
      the first operation of the rest raises when it is given \<^verbatim>\<open>None\<close>\<close>
  "normalized e rest img =
     bind (force_RGB_array img) (\<lambda>r. case r of None \<Rightarrow> Inl e | Some a \<Rightarrow> rest a)"

section \<open>The transforms\<close>

text \<open>
  Each public function \<open>f\<close> is the normalizer followed by \<open>f_arr\<close>, the statements of the
  function after its first line, on the normalized array.
\<close>

definition rot90_arr :: "'a array3 \<Rightarrow> bool \<Rightarrow> 'a array3" where
  "rot90_arr img ccw = (let k = (if ccw then - 1 else 1) in np_rot90 img k)"

definition rot90 :: "'a pyobj \<Rightarrow> bool \<Rightarrow> error + 'a array3" where
  "rot90 img ccw = normalized ValueError (\<lambda>a. Inr (rot90_arr a ccw)) img"

definition flipv :: "'a pyobj \<Rightarrow> error + 'a array3" where
  "flipv img = normalized ValueError (\<lambda>a. Inr (np_flipud a)) img"

definition fliph :: "'a pyobj \<Rightarrow> error + 'a array3" where
  "fliph img = normalized ValueError (\<lambda>a. Inr (np_fliplr a)) img"

definition rolldown_arr :: "'a array3 \<Rightarrow> int \<Rightarrow> 'a array3" where
  "rolldown_arr img px = np_roll0 img px"

definition rolldown :: "'a pyobj \<Rightarrow> int \<Rightarrow> error + 'a array3" where
  "rolldown img px = normalized ValueError (\<lambda>a. Inr (rolldown_arr a px)) img"

definition rollright_arr :: "'a array3 \<Rightarrow> int \<Rightarrow> 'a array3" where
  "rollright_arr img px = np_roll1 img px"

definition rollright :: "'a pyobj \<Rightarrow> int \<Rightarrow> error + 'a array3" where
  "rollright img px = normalized ValueError (\<lambda>a. Inr (rollright_arr a px)) img"

text \<open>
  The zoom factor is one number or a pair of numbers, and \<^verbatim>\<open>zoom\<close> computes its window in
  Python's floating point arithmetic, which is not part of the module. The operations
  \<^verbatim>\<open>zoom\<close> and \<^verbatim>\<open>noisy\<close> apply to numbers are parameters of the model, on a type \<open>'f\<close> of
  numbers: the tests \<^verbatim>\<open>x > 1\<close> and \<^verbatim>\<open>x <= 0\<close>, the constants \<^verbatim>\<open>1\<close>, \<^verbatim>\<open>.5\<close> and \<^verbatim>\<open>255\<close>,
  \<^verbatim>\<open>h/2\<close> of an integer, \<^verbatim>\<open>x/2.\<close>, \<^verbatim>\<open>h*x\<close> with an integer, sum, difference and product, and
  \<^verbatim>\<open>int(x)\<close>, which raises on an infinity or a NaN.
\<close>

record 'f arith =
  fl_gt_one :: "'f \<Rightarrow> bool"
  fl_le_zero :: "'f \<Rightarrow> bool"
  fl_one :: 'f
  fl_half :: 'f
  fl_255 :: 'f
  fl_half_of_nat :: "nat \<Rightarrow> 'f"
  fl_halve :: "'f \<Rightarrow> 'f"
  fl_scale :: "nat \<Rightarrow> 'f \<Rightarrow> 'f"
  fl_add :: "'f \<Rightarrow> 'f \<Rightarrow> 'f"
  fl_sub :: "'f \<Rightarrow> 'f \<Rightarrow> 'f"
  fl_mul :: "'f \<Rightarrow> 'f \<Rightarrow> 'f"
  fl_trunc :: "'f \<Rightarrow> error + int"

datatype 'f zoomfac = Scalar 'f | PerAxis 'f 'f

definition clamp_fac :: "'f arith \<Rightarrow> 'f zoomfac \<Rightarrow> 'f \<times> 'f" where
  \<comment> \<open>lines 148 to 157 of \<^verbatim>\<open>zoom\<close>\<close>
  "clamp_fac fl f =
     (let fac = (case f of Scalar x \<Rightarrow> (x, x) | PerAxis x y \<Rightarrow> (x, y));
          fac = (if fl_gt_one fl (fst fac) then (fl_one fl, snd fac) else fac);
          fac = (if fl_gt_one fl (snd fac) then (fst fac, fl_one fl) else fac);
          fac = (if fl_le_zero fl (fst fac) then (fl_half fl, snd fac) else fac);
          fac = (if fl_le_zero fl (snd fac) then (fst fac, fl_half fl) else fac)
      in fac)"

definition window :: "'f arith \<Rightarrow> nat \<Rightarrow> 'f \<Rightarrow> error + int \<times> int" where
  \<comment> \<open>\<^verbatim>\<open>[int(h/2-h*(fac/2.)), int(h/2+h*(fac/2.))]\<close>\<close>
  "window fl h fac =
     bind (fl_trunc fl (fl_sub fl (fl_half_of_nat fl h) (fl_scale fl h (fl_halve fl fac)))) (\<lambda>lo.
     bind (fl_trunc fl (fl_add fl (fl_half_of_nat fl h) (fl_scale fl h (fl_halve fl fac)))) (\<lambda>hi.
       Inr (lo, hi)))"

definition zoom_arr :: "'f arith \<Rightarrow> 'a array3 \<Rightarrow> 'f zoomfac \<Rightarrow> error + 'a array3" where
  \<comment> \<open>lines 148 to 162 of \<^verbatim>\<open>zoom\<close>\<close>
  "zoom_arr fl img f =
     (let fac = clamp_fac fl f; h = ht img; w = wd img in
      bind (window fl h (fst fac)) (\<lambda>bounds_h.
      bind (window fl w (snd fac)) (\<lambda>bounds_w.
        Inr (np_slice img bounds_h bounds_w))))"

definition zoom :: "'f arith \<Rightarrow> 'a pyobj \<Rightarrow> 'f zoomfac \<Rightarrow> error + 'a array3" where
  "zoom fl img f = normalized AttributeError (\<lambda>a. zoom_arr fl a f) img"

definition crop_arr :: "'a array3 \<Rightarrow> (int \<times> int) \<times> (int \<times> int) \<Rightarrow> 'a array3" where
  \<comment> \<open>\<^verbatim>\<open>img[bounds[0][0]:bounds[0][1], bounds[1][0]:bounds[1][1], :]\<close>\<close>
  "crop_arr img bounds =
     np_slice img (fst (fst bounds), snd (fst bounds)) (fst (snd bounds), snd (snd bounds))"

definition crop :: "'a pyobj \<Rightarrow> (int \<times> int) \<times> (int \<times> int) \<Rightarrow> error + 'a array3" where
  "crop img bounds = normalized TypeError (\<lambda>a. Inr (crop_arr a bounds)) img"

definition noisy_arr :: "'f arith \<Rightarrow> 'f array3 \<Rightarrow> 'f \<Rightarrow> 'f array3 \<Rightarrow> 'f array3" where
  \<comment> \<open>lines 200 to 202 of \<^verbatim>\<open>noisy\<close>; \<open>u\<close> is the draw \<^verbatim>\<open>np.random.uniform(size=img.shape)\<close>\<close>
  "noisy_arr fl img amt u =
     img\<lparr>rows := map2 (map2 (map2 (\<lambda>p n. fl_add fl p (fl_mul fl (fl_mul fl n (fl_255 fl)) amt))))
                       (rows img) (rows u)\<rparr>"

definition noisy :: "'f arith \<Rightarrow> 'f pyobj \<Rightarrow> 'f \<Rightarrow> 'f array3 \<Rightarrow> error + 'f array3" where
  "noisy fl img amt u = normalized AttributeError (\<lambda>a. Inr (noisy_arr fl a amt u)) img"


subsection \<open>Mirrors\<close>

text \<open>
  A slice assignment of numpy reads its right-hand side as it was before the assignment,
  also when both sides are views of the same memory (\<^verbatim>\<open>np.fliplr\<close> and \<^verbatim>\<open>np.flipud\<close>
  return views). The four assignments of the mirror functions:
\<close>

definition set_cols_from :: "'a array3 \<Rightarrow> nat \<Rightarrow> 'a array3 \<Rightarrow> 'a array3" where
  \<comment> \<open>\<^verbatim>\<open>img[:, bnd:, :] = src[:, bnd:, :]\<close>\<close>
  "set_cols_from img bnd src =
     img\<lparr>rows := map2 (\<lambda>r f. take bnd r @ drop bnd f) (rows img) (rows src)\<rparr>"

definition set_cols_upto :: "'a array3 \<Rightarrow> nat \<Rightarrow> 'a array3 \<Rightarrow> 'a array3" where
  \<comment> \<open>\<^verbatim>\<open>img[:, :bnd, :] = src[:, :bnd, :]\<close>\<close>
  "set_cols_upto img bnd src =
     img\<lparr>rows := map2 (\<lambda>r f. take bnd f @ drop bnd r) (rows img) (rows src)\<rparr>"

definition set_rows_from :: "'a array3 \<Rightarrow> nat \<Rightarrow> 'a array3 \<Rightarrow> 'a array3" where
  \<comment> \<open>\<^verbatim>\<open>img[bnd:, :, :] = src[bnd:, :, :]\<close>\<close>
  "set_rows_from img bnd src = img\<lparr>rows := take bnd (rows img) @ drop bnd (rows src)\<rparr>"

definition set_rows_upto :: "'a array3 \<Rightarrow> nat \<Rightarrow> 'a array3 \<Rightarrow> 'a array3" where
  \<comment> \<open>\<^verbatim>\<open>img[:bnd, :, :] = src[:bnd, :, :]\<close>\<close>
  "set_rows_upto img bnd src = img\<lparr>rows := take bnd (rows src) @ drop bnd (rows img)\<rparr>"

text \<open>What lines 2 to 4 of each mirror function leave in the array \<^verbatim>\<open>img\<close>:\<close>

definition mirrorleft_arr :: "'a array3 \<Rightarrow> 'a array3" where
  "mirrorleft_arr img =
     (let flipclone = np_fliplr img; bnd = wd img div 2 in set_cols_from img bnd flipclone)"

definition mirrorright_arr :: "'a array3 \<Rightarrow> 'a array3" where
  "mirrorright_arr img =
     (let flipclone = np_fliplr img; bnd = wd img div 2 in set_cols_upto img bnd flipclone)"

definition mirrorup_arr :: "'a array3 \<Rightarrow> 'a array3" where
  "mirrorup_arr img =
     (let flipclone = np_flipud img; bnd = ht img div 2 in set_rows_from img bnd flipclone)"

definition mirrordown_arr :: "'a array3 \<Rightarrow> 'a array3" where
  "mirrordown_arr img =
     (let flipclone = np_flipud img; bnd = ht img div 2 in set_rows_upto img bnd flipclone)"

text \<open>
  The mirror functions assign into the array the normalizer returned, so whether that
  array is the caller's own object matters. They are modelled over a store of objects:
  a reference is an index into the store, a new object is appended to it.
\<close>

type_synonym addr = nat
type_synonym 'a store = "'a pyobj list"

definition ensure_ndarray_ref :: "addr \<Rightarrow> 'a store \<Rightarrow> (error + addr) \<times> 'a store" where
  \<comment> \<open>lines 24 and 25 of \<^verbatim>\<open>_force_RGB_array\<close>\<close>
  "ensure_ndarray_ref r h =
     (case isinstance (h ! r) np_array of
        Inl e \<Rightarrow> (Inl e, h)
      | Inr is_array \<Rightarrow>
          if \<not> is_array then
            (case np_array_call (h ! r) of
               Inl e \<Rightarrow> (Inl e, h)
             | Inr a \<Rightarrow> (Inr (length h), h @ [Ndarray a]))
          else (Inr r, h))"

definition force_RGB_shape_ref :: "addr \<Rightarrow> 'a store \<Rightarrow> addr option \<times> 'a store" where
  \<comment> \<open>lines 26 to 30: \<^verbatim>\<open>return img\<close> returns the same object, \<^verbatim>\<open>np.dstack\<close> makes a new one\<close>
  "force_RGB_shape_ref r h =
     (case payload (h ! r) of
        Rank3 a \<Rightarrow> (Some r, h)
      | Rank2 hh w rs \<Rightarrow> (Some (length h), h @ [Ndarray (Rank3 (np_dstack3 hh w rs))])
      | RankOther sh xs \<Rightarrow> (None, h))"

definition update_rank3 :: "addr \<Rightarrow> ('a array3 \<Rightarrow> 'a array3) \<Rightarrow> 'a store \<Rightarrow> 'a store" where
  \<comment> \<open>the array at \<open>r\<close> is changed in place\<close>
  "update_rank3 r f h =
     h[r := (case h ! r of Ndarray (Rank3 a) \<Rightarrow> Ndarray (Rank3 (f a)) | other \<Rightarrow> other)]"

definition mirror_nd ::
  "('a array3 \<Rightarrow> 'a array3) \<Rightarrow> addr \<Rightarrow> 'a store \<Rightarrow> (error + addr) \<times> 'a store" where
  \<comment> \<open>a mirror function from line 26 of the normalizer on: \<open>f\<close> is what its assignment
      leaves in \<^verbatim>\<open>img\<close>; \<^verbatim>\<open>return img\<close> returns the reference\<close>
  "mirror_nd f r h =
     (case force_RGB_shape_ref r h of
        (None, h1) \<Rightarrow> (Inl ValueError, h1)
      | (Some p, h1) \<Rightarrow> (Inr p, update_rank3 p f h1))"

definition mirror_ref ::
  "('a array3 \<Rightarrow> 'a array3) \<Rightarrow> addr \<Rightarrow> 'a store \<Rightarrow> (error + addr) \<times> 'a store" where
  "mirror_ref f r h =
     (case ensure_ndarray_ref r h of
        (Inl e, h1) \<Rightarrow> (Inl e, h1)
      | (Inr p, h1) \<Rightarrow> mirror_nd f p h1)"

definition mirrorleft :: "addr \<Rightarrow> 'a store \<Rightarrow> (error + addr) \<times> 'a store" where
  "mirrorleft = mirror_ref mirrorleft_arr"

definition mirrorright :: "addr \<Rightarrow> 'a store \<Rightarrow> (error + addr) \<times> 'a store" where
  "mirrorright = mirror_ref mirrorright_arr"

definition mirrorup :: "addr \<Rightarrow> 'a store \<Rightarrow> (error + addr) \<times> 'a store" where
  "mirrorup = mirror_ref mirrorup_arr"

definition mirrordown :: "addr \<Rightarrow> 'a store \<Rightarrow> (error + addr) \<times> 'a store" where
  "mirrordown = mirror_ref mirrordown_arr"

subsection \<open>Edge-stretched shifts\<close>

text \<open>
  Each shift takes \<^verbatim>\<open>px = abs(px)\<close>, calls a roll (which normalizes the image and returns
  a new array) and runs its fill loop on the result.
\<close>

definition shiftdown_fill :: "'a array3 \<Rightarrow> int \<Rightarrow> error + 'a array3" where
  "shiftdown_fill img px =
     (if px > 0 then for_range [0..<nat px] (\<lambda>i img. copy_row img (int i) px) img
      else Inr img)"

definition shiftup_fill :: "'a array3 \<Rightarrow> int \<Rightarrow> error + 'a array3" where
  "shiftup_fill img px =
     (if px > 0 then
        for_range [0..<nat px]
          (\<lambda>i img. copy_row img (int (ht img) - int i - 1) (int (ht img) - px)) img
      else Inr img)"

definition shiftleft_fill :: "'a array3 \<Rightarrow> int \<Rightarrow> error + 'a array3" where
  "shiftleft_fill img px =
     (if px > 0 then
        for_range [0..<nat px]
          (\<lambda>i img. copy_col img (int (wd img) - int i - 1) (int (wd img) - px)) img
      else Inr img)"

definition shiftright_fill :: "'a array3 \<Rightarrow> int \<Rightarrow> error + 'a array3" where
  "shiftright_fill img px =
     (if px > 0 then for_range [0..<nat px] (\<lambda>i img. copy_col img (int i) px) img
      else Inr img)"

definition shiftdown :: "'a pyobj \<Rightarrow> int \<Rightarrow> error + 'a array3" where
  "shiftdown img px = (let px = \<bar>px\<bar> in bind (rolldown img px) (\<lambda>img. shiftdown_fill img px))"

definition shiftup :: "'a pyobj \<Rightarrow> int \<Rightarrow> error + 'a array3" where
  "shiftup img px = (let px = \<bar>px\<bar> in bind (rolldown img (- px)) (\<lambda>img. shiftup_fill img px))"

definition shiftleft :: "'a pyobj \<Rightarrow> int \<Rightarrow> error + 'a array3" where
  "shiftleft img px = (let px = \<bar>px\<bar> in bind (rollright img (- px)) (\<lambda>img. shiftleft_fill img px))"

definition shiftright :: "'a pyobj \<Rightarrow> int \<Rightarrow> error + 'a array3" where
  "shiftright img px = (let px = \<bar>px\<bar> in bind (rollright img px) (\<lambda>img. shiftright_fill img px))"

section \<open>What the specification says, for comparison\<close>

text \<open>
  A rotation by 90 degrees of an image whose row 0 is its top row. Clockwise, the pixel at
  row \<open>r\<close>, column \<open>c\<close> goes to row \<open>c\<close>, column \<open>H - 1 - r\<close>; counter-clockwise, to row
  \<open>W - 1 - c\<close>, column \<open>r\<close>.
\<close>

definition rotated_cw :: "'a array3 \<Rightarrow> 'a array3" where
  "rotated_cw m =
     \<lparr>ht = wd m, wd = ht m, ch = ch m,
      rows = map (\<lambda>i. map (\<lambda>j. rows m ! (ht m - 1 - j) ! i) [0..<ht m]) [0..<wd m]\<rparr>"

definition rotated_ccw :: "'a array3 \<Rightarrow> 'a array3" where
  "rotated_ccw m =
     \<lparr>ht = wd m, wd = ht m, ch = ch m,
      rows = map (\<lambda>i. map (\<lambda>j. rows m ! j ! (wd m - 1 - i)) [0..<ht m]) [0..<wd m]\<rparr>"

section \<open>Example images\<close>

definition gray22 :: "int ndarray" where
  "gray22 = Rank2 2 2 [[1, 2], [3, 4]]"

definition img22 :: "int array3" where
  "img22 = \<lparr>ht = 2, wd = 2, ch = 3,
            rows = [[[1, 1, 1], [2, 2, 2]], [[3, 3, 3], [4, 4, 4]]]\<rparr>"

definition img12 :: "int array3" where
  "img12 = \<lparr>ht = 1, wd = 2, ch = 3, rows = [[[1, 1, 1], [2, 2, 2]]]\<rparr>"

definition img14 :: "int array3" where
  "img14 = \<lparr>ht = 1, wd = 4, ch = 1, rows = [[[1], [2], [3], [4]]]\<rparr>"

definition img13 :: "int array3" where
  "img13 = \<lparr>ht = 1, wd = 3, ch = 1, rows = [[[1], [2], [3]]]\<rparr>"

definition img31 :: "int array3" where
  "img31 = \<lparr>ht = 3, wd = 1, ch = 1, rows = [[[1]], [[2]], [[3]]]\<rparr>"

text \<open>
  An arithmetic for the examples: exact rationals, \<^verbatim>\<open>int(x)\<close> truncating towards zero.
\<close>

definition exact_arith :: "rat arith" where
  "exact_arith =
     \<lparr>fl_gt_one = (\<lambda>x. 1 < x), fl_le_zero = (\<lambda>x. x \<le> 0),
      fl_one = 1, fl_half = 1 / 2, fl_255 = 255,
      fl_half_of_nat = (\<lambda>h. of_nat h / 2), fl_halve = (\<lambda>x. x / 2),
      fl_scale = (\<lambda>h x. of_nat h * x),
      fl_add = (\<lambda>x y. x + y), fl_sub = (\<lambda>x y. x - y), fl_mul = (\<lambda>x y. x * y),
      fl_trunc = (\<lambda>x. Inr (if 0 \<le> x then \<lfloor>x\<rfloor> else \<lceil>x\<rceil>))\<rparr>"

section \<open>The type test of the normalizer\<close>

lemma bind_Inr [simp]: "bind (Inr x) f = f x"
  by (simp add: bind_def)

lemma bind_Inl [simp]: "bind (Inl e) f = Inl e"
  by (simp add: bind_def)

lemma force_RGB_array_raises: "force_RGB_array img = Inl TypeError"
  by (simp add: force_RGB_array_def np_array_def)

lemma normalized_raises: "normalized e rest img = Inl TypeError"
  by (simp add: normalized_def force_RGB_array_raises)

lemma mirror_ref_raises: "mirror_ref f r h = (Inl TypeError, h)"
  by (simp add: mirror_ref_def ensure_ndarray_ref_def np_array_def)

lemma rolls_raise:
  "rolldown img px = Inl TypeError"
  "rollright img px = Inl TypeError"
  by (simp_all add: rolldown_def rollright_def normalized_raises)

lemma shifts_raise:
  "shiftdown img px = Inl TypeError"
  "shiftup img px = Inl TypeError"
  "shiftleft img px = Inl TypeError"
  "shiftright img px = Inl TypeError"
  by (simp_all add: shiftdown_def shiftup_def shiftleft_def shiftright_def rolls_raise Let_def)

lemma mirrors_raise:
  "mirrorleft r h = (Inl TypeError, h)"
  "mirrorright r h = (Inl TypeError, h)"
  "mirrorup r h = (Inl TypeError, h)"
  "mirrordown r h = (Inl TypeError, h)"
  by (simp_all add: mirrorleft_def mirrorright_def mirrorup_def mirrordown_def mirror_ref_raises)

text \<open>
  C1. \<^verbatim>\<open>isinstance(img, np.array)\<close> raises TypeError for every \<^verbatim>\<open>img\<close>, because
  \<^verbatim>\<open>np.array\<close> is a function and not a type. So the normalizer never returns, and every
  public transform raises TypeError before any of its own statements runs; the mirror
  functions leave the store as it was.
\<close>

theorem every_transform_raises_TypeError:
  "isinstance img np_array = Inl TypeError
   \<and> force_RGB_array img = Inl TypeError
   \<and> force_RGB_array img \<noteq> Inr res
   \<and> rot90 img ccw = Inl TypeError
   \<and> flipv img = Inl TypeError
   \<and> fliph img = Inl TypeError
   \<and> rolldown img px = Inl TypeError
   \<and> rollright img px = Inl TypeError
   \<and> zoom fl img fac = Inl TypeError
   \<and> crop img bounds = Inl TypeError
   \<and> noisy fl qimg amt u = Inl TypeError
   \<and> mirrorleft r h = (Inl TypeError, h)
   \<and> mirrorright r h = (Inl TypeError, h)
   \<and> mirrorup r h = (Inl TypeError, h)
   \<and> mirrordown r h = (Inl TypeError, h)
   \<and> shiftdown img px = Inl TypeError
   \<and> shiftup img px = Inl TypeError
   \<and> shiftleft img px = Inl TypeError
   \<and> shiftright img px = Inl TypeError"
  by (simp add: force_RGB_array_raises normalized_raises mirrors_raise rolls_raise shifts_raise
      np_array_def rot90_def flipv_def fliph_def zoom_def crop_def noisy_def)

theorem every_transform_raises_TypeError_witness:
  "force_RGB_array (Ndarray gray22) = Inl TypeError
   \<and> rot90 (Ndarray gray22) False = Inl TypeError
   \<and> zoom exact_arith (Ndarray gray22) (Scalar 1) = Inl TypeError
   \<and> mirrorleft 0 [Ndarray (Rank3 img22)] = (Inl TypeError, [Ndarray (Rank3 img22)])
   \<and> shiftdown (Ndarray gray22) 1 = Inl TypeError"
  using every_transform_raises_TypeError
    [where img = "Ndarray gray22" and res = None and ccw = False and px = 1
       and fl = exact_arith and fac = "Scalar 1" and bounds = "((0, 1), (0, 1))"
       and qimg = "Ndarray (Rank2 1 1 [[0]])" and amt = 0
       and u = "\<lparr>ht = 1, wd = 1, ch = 3, rows = [[[0, 0, 0]]]\<rparr>"
       and r = 0 and h = "[Ndarray (Rank3 img22)]"]
  by simp

section \<open>What each transform does when it is called\<close>

text \<open>
  C2. \<^verbatim>\<open>shiftup\<close> and \<^verbatim>\<open>shiftleft\<close> do not roll and fill: for every image and every
  \<open>px\<close> the roll they call first raises TypeError in the normalizer, so they return no
  array, and the fill loop is not entered.
\<close>

theorem shiftup_shiftleft_raise_before_fill:
  "shiftup img px = Inl TypeError \<and> shiftup img px \<noteq> Inr a
   \<and> shiftleft img px = Inl TypeError \<and> shiftleft img px \<noteq> Inr a"
  by (simp add: shifts_raise)

theorem shiftup_shiftleft_raise_before_fill_witness:
  "shiftup (Ndarray (Rank3 img31)) 2 = Inl TypeError
   \<and> shiftup (Ndarray (Rank3 img31)) 2
       \<noteq> Inr \<lparr>ht = 3, wd = 1, ch = 1, rows = [[[3]], [[3]], [[3]]]\<rparr>
   \<and> shiftleft (Ndarray (Rank3 img13)) 2 = Inl TypeError
   \<and> shiftleft (Ndarray (Rank3 img13)) 2
       \<noteq> Inr \<lparr>ht = 1, wd = 3, ch = 1, rows = [[[3], [3], [3]]]\<rparr>"
  using shiftup_shiftleft_raise_before_fill
      [of "Ndarray (Rank3 img31)" 2 "\<lparr>ht = 3, wd = 1, ch = 1, rows = [[[3]], [[3]], [[3]]]\<rparr>"]
    shiftup_shiftleft_raise_before_fill
      [of "Ndarray (Rank3 img13)" 2 "\<lparr>ht = 1, wd = 3, ch = 1, rows = [[[3], [3], [3]]]\<rparr>"]
  by simp

text \<open>
  C3. \<^verbatim>\<open>rot90\<close> rotates nothing: for every image and either value of \<^verbatim>\<open>ccw\<close> it raises
  TypeError in the normalizer; its result is neither the clockwise nor the
  counter-clockwise rotation of any array.
\<close>

theorem rot90_raises_before_rotating:
  "rot90 img ccw = Inl TypeError
   \<and> rot90 img False \<noteq> Inr (rotated_cw m)
   \<and> rot90 img True \<noteq> Inr (rotated_ccw m)"
  by (simp add: rot90_def normalized_raises)

theorem rot90_raises_before_rotating_witness:
  "rot90 (Ndarray (Rank3 img22)) False = Inl TypeError
   \<and> rotated_cw img22
       = \<lparr>ht = 2, wd = 2, ch = 3, rows = [[[3, 3, 3], [1, 1, 1]], [[4, 4, 4], [2, 2, 2]]]\<rparr>
   \<and> rot90 (Ndarray (Rank3 img22)) False \<noteq> Inr (rotated_cw img22)"
  using rot90_raises_before_rotating [of "Ndarray (Rank3 img22)" False img22]
  by (simp add: rotated_cw_def img22_def upt_rec)

text \<open>
  C4. The four shifts fail for every \<open>px\<close>, at or beyond the extent of the image as
  below it: each raises TypeError in the normalizer, through the roll it calls, and
  returns no array.
\<close>

theorem shifts_fail_for_every_px:
  "shiftdown img px = Inl TypeError \<and> shiftdown img px \<noteq> Inr a
   \<and> shiftright img px = Inl TypeError \<and> shiftright img px \<noteq> Inr a
   \<and> shiftup img px = Inl TypeError \<and> shiftup img px \<noteq> Inr a
   \<and> shiftleft img px = Inl TypeError \<and> shiftleft img px \<noteq> Inr a"
  by (simp add: shifts_raise)

theorem shifts_fail_for_every_px_witness:
  "ht img31 = 3
   \<and> shiftdown (Ndarray (Rank3 img31)) 3 = Inl TypeError
   \<and> shiftdown (Ndarray (Rank3 img31)) 5 = Inl TypeError
   \<and> shiftup (Ndarray (Rank3 img31)) 3 = Inl TypeError
   \<and> wd img13 = 3
   \<and> shiftright (Ndarray (Rank3 img13)) 3 = Inl TypeError
   \<and> shiftleft (Ndarray (Rank3 img13)) 3 = Inl TypeError"
  using shifts_fail_for_every_px [of "Ndarray (Rank3 img31)" 3 img31]
    shifts_fail_for_every_px [of "Ndarray (Rank3 img31)" 5 img31]
    shifts_fail_for_every_px [of "Ndarray (Rank3 img13)" 3 img13]
  by (simp add: img31_def img13_def)

text \<open>
  C5. \<^verbatim>\<open>crop\<close> returns no sub-array, whatever the bounds and however they are read: for
  every image it raises TypeError in the normalizer.
\<close>

theorem crop_raises_before_slicing:
  "crop img bounds = Inl TypeError \<and> crop img bounds \<noteq> Inr a"
  by (simp add: crop_def normalized_raises)

theorem crop_raises_before_slicing_witness:
  "ht img12 = 1 \<and> wd img12 = 2
   \<and> crop (Ndarray (Rank3 img12)) ((0, 1), (0, 2)) = Inl TypeError
   \<and> crop (Ndarray (Rank3 img12)) ((0, 1), (0, 2)) \<noteq> Inr img12
   \<and> crop (Ndarray (Rank3 img12)) ((0, 0), (1, 2)) = Inl TypeError
   \<and> crop (Ndarray (Rank3 img12)) ((0, 0), (1, 2)) \<noteq> Inr img12"
  using crop_raises_before_slicing [of "Ndarray (Rank3 img12)" "((0, 1), (0, 2))" img12]
    crop_raises_before_slicing [of "Ndarray (Rank3 img12)" "((0, 0), (1, 2))" img12]
  by (simp add: img12_def)

text \<open>
  C6. \<^verbatim>\<open>zoom\<close> with factor 1.0 does not return the normalized image: for every image and
  whatever the arithmetic, it raises TypeError in the normalizer, like the normalizer
  called on its own, and returns no array.
\<close>

theorem zoom_one_raises:
  "zoom fl img (Scalar (fl_one fl)) = Inl TypeError
   \<and> zoom fl img (Scalar (fl_one fl)) \<noteq> Inr a
   \<and> force_RGB_array img = Inl TypeError"
  by (simp add: zoom_def normalized_raises force_RGB_array_raises)

theorem zoom_one_raises_witness:
  "fl_one exact_arith = 1
   \<and> zoom exact_arith (Ndarray (Rank3 img22)) (Scalar 1) = Inl TypeError
   \<and> zoom exact_arith (Ndarray (Rank3 img22)) (Scalar 1) \<noteq> Inr img22
   \<and> zoom exact_arith (Ndarray gray22) (Scalar 1) \<noteq> Inr img22"
  using zoom_one_raises [of exact_arith "Ndarray (Rank3 img22)" img22]
    zoom_one_raises [of exact_arith "Ndarray gray22" img22]
  by (simp add: exact_arith_def)

text \<open>
  C7. No factor is clamped and no window is computed: for every image, every scalar or
  per-axis factor and whatever the arithmetic, \<^verbatim>\<open>zoom\<close> raises TypeError in the
  normalizer, before line 148, and returns no array.
\<close>

theorem zoom_raises_before_clamping:
  "zoom fl img (Scalar x) = Inl TypeError \<and> zoom fl img (Scalar x) \<noteq> Inr a
   \<and> zoom fl img (PerAxis x y) = Inl TypeError \<and> zoom fl img (PerAxis x y) \<noteq> Inr a"
  by (simp add: zoom_def normalized_raises)

theorem zoom_raises_before_clamping_witness:
  "zoom exact_arith (Ndarray (Rank3 img22)) (Scalar 2) = Inl TypeError
   \<and> zoom exact_arith (Ndarray (Rank3 img22)) (Scalar 2) \<noteq> Inr img22
   \<and> zoom exact_arith (Ndarray (Rank3 img22)) (Scalar 0) = Inl TypeError
   \<and> zoom exact_arith (Ndarray (Rank3 img22)) (PerAxis 3 (1 / 2)) = Inl TypeError"
  using zoom_raises_before_clamping [of exact_arith "Ndarray (Rank3 img22)" 2 img22 2]
    zoom_raises_before_clamping [of exact_arith "Ndarray (Rank3 img22)" 0 img22 0]
    zoom_raises_before_clamping [of exact_arith "Ndarray (Rank3 img22)" 3 img22 "1 / 2"]
  by simp

text \<open>
  C8. \<^verbatim>\<open>rolldown(rolldown(img, px), -px)\<close> reproduces nothing: the inner call raises
  TypeError in the normalizer for every image and every \<open>px\<close>, so the outer call is not
  made and the expression raises; an outer call on any array would raise too.
\<close>

theorem rolldown_roundtrip_raises:
  "rolldown img px = Inl TypeError
   \<and> bind (rolldown img px) (\<lambda>a. rolldown (Ndarray (Rank3 a)) (- px)) = Inl TypeError
   \<and> bind (rolldown img px) (\<lambda>a. rolldown (Ndarray (Rank3 a)) (- px)) \<noteq> Inr b
   \<and> rolldown (Ndarray (Rank3 c)) (- px) = Inl TypeError"
  by (simp add: rolls_raise)

theorem rolldown_roundtrip_raises_witness:
  "rolldown (Ndarray (Rank3 img22)) 1 = Inl TypeError
   \<and> bind (rolldown (Ndarray (Rank3 img22)) 1) (\<lambda>a. rolldown (Ndarray (Rank3 a)) (- 1))
       = Inl TypeError
   \<and> bind (rolldown (Ndarray (Rank3 img22)) 1) (\<lambda>a. rolldown (Ndarray (Rank3 a)) (- 1))
       \<noteq> Inr img22"
  using rolldown_roundtrip_raises [of "Ndarray (Rank3 img22)" 1 img22 img22]
  by simp

text \<open>
  C9. \<^verbatim>\<open>mirrorleft\<close> has no result: for every reference and every store it raises
  TypeError in the normalizer, returns no array and leaves the store as it was.
\<close>

theorem mirrorleft_raises_before_mirroring:
  "mirrorleft r h = (Inl TypeError, h) \<and> fst (mirrorleft r h) \<noteq> Inr p"
  by (simp add: mirrors_raise)

theorem mirrorleft_raises_before_mirroring_witness:
  "wd img14 = 4
   \<and> mirrorleft 0 [Ndarray (Rank3 img14)] = (Inl TypeError, [Ndarray (Rank3 img14)])
   \<and> fst (mirrorleft 0 [Ndarray (Rank3 img14)]) \<noteq> Inr 0"
  using mirrorleft_raises_before_mirroring [of 0 "[Ndarray (Rank3 img14)]" 0]
  by (simp add: img14_def)

text \<open>
  C10. The four mirror functions do not change the caller's array: each raises
  TypeError in the normalizer, before its slice assignment, so it returns no reference
  and the store after the call is the store before it, at the input's reference as
  everywhere else.
\<close>

theorem mirrors_leave_input_unchanged:
  "mirrorleft r h = (Inl TypeError, h) \<and> snd (mirrorleft r h) ! r = h ! r
   \<and> mirrorright r h = (Inl TypeError, h) \<and> snd (mirrorright r h) ! r = h ! r
   \<and> mirrorup r h = (Inl TypeError, h) \<and> snd (mirrorup r h) ! r = h ! r
   \<and> mirrordown r h = (Inl TypeError, h) \<and> snd (mirrordown r h) ! r = h ! r"
  by (simp add: mirrors_raise)

theorem mirrors_leave_input_unchanged_witness:
  "mirrorleft 0 [Ndarray (Rank3 img13)] = (Inl TypeError, [Ndarray (Rank3 img13)])
   \<and> snd (mirrorleft 0 [Ndarray (Rank3 img13)]) ! 0 = Ndarray (Rank3 img13)
   \<and> snd (mirrorright 0 [Ndarray (Rank3 img13)]) ! 0 = Ndarray (Rank3 img13)
   \<and> snd (mirrorup 0 [Ndarray (Rank3 img13)]) ! 0 = Ndarray (Rank3 img13)
   \<and> snd (mirrordown 0 [Ndarray (Rank3 img13)]) ! 0 = Ndarray (Rank3 img13)"
  using mirrors_leave_input_unchanged [of 0 "[Ndarray (Rank3 img13)]"]
  by simp

section \<open>The statements the type test keeps from running\<close>

text \<open>
  No call reaches the statements that follow the normalizer. The lemmas of this section
  record what those statements compute on an array of rank 3, had the normalizer
  returned it; none of them is a property of a call of the module.
\<close>

subsection \<open>Well-formed arrays\<close>

lemma wf_rows: "well_formed m \<Longrightarrow> length (rows m) = ht m"
  by (simp add: well_formed_def)

lemma wf_row_length: "well_formed m \<Longrightarrow> i < ht m \<Longrightarrow> length (rows m ! i) = wd m"
  by (simp add: well_formed_def list_all_length)

text \<open>The normalizer's results are well-formed arrays of rank 3.\<close>

lemma force_RGB_shape_well_formed:
  assumes "force_RGB_shape img = Some n"
    and "case img of
           Rank2 h w rs \<Rightarrow> length rs = h \<and> list_all (\<lambda>r. length r = w) rs
         | Rank3 a \<Rightarrow> well_formed a
         | RankOther sh xs \<Rightarrow> True"
  shows "well_formed n"
  using assms
  by (cases img)
     (auto simp: force_RGB_shape_def np_dstack3_def well_formed_def list_all_iff)

lemma map2_same: "map2 f xs (map g xs) = map (\<lambda>x. f x (g x)) xs"
  by (induction xs) simp_all

subsection \<open>Rotation\<close>

lemma column_of_flipped:
  assumes "well_formed m" "j < wd m"
  shows "map (\<lambda>r. r ! j) (map rev (rows m)) = map (\<lambda>i. rows m ! i ! (wd m - 1 - j)) [0..<ht m]"
proof (rule nth_equalityI)
  show "length (map (\<lambda>r. r ! j) (map rev (rows m)))
      = length (map (\<lambda>i. rows m ! i ! (wd m - 1 - j)) [0..<ht m])"
    using assms by (simp add: wf_rows)
next
  fix i assume "i < length (map (\<lambda>r. r ! j) (map rev (rows m)))"
  then have i: "i < ht m" using assms by (simp add: wf_rows)
  then show "map (\<lambda>r. r ! j) (map rev (rows m)) ! i
      = map (\<lambda>i. rows m ! i ! (wd m - 1 - j)) [0..<ht m] ! i"
    using assms by (simp add: wf_rows wf_row_length rev_nth)
qed

lemma column_reversed:
  assumes "well_formed m"
  shows "rev (map (\<lambda>r. r ! j) (rows m)) = map (\<lambda>i. rows m ! (ht m - 1 - i) ! j) [0..<ht m]"
proof (rule nth_equalityI)
  show "length (rev (map (\<lambda>r. r ! j) (rows m)))
      = length (map (\<lambda>i. rows m ! (ht m - 1 - i) ! j) [0..<ht m])"
    using assms by (simp add: wf_rows)
next
  fix i assume "i < length (rev (map (\<lambda>r. r ! j) (rows m)))"
  then have i: "i < ht m" using assms by (simp add: wf_rows)
  then show "rev (map (\<lambda>r. r ! j) (rows m)) ! i
      = map (\<lambda>i. rows m ! (ht m - 1 - i) ! j) [0..<ht m] ! i"
    using assms by (simp add: wf_rows rev_nth)
qed

lemma np_rot90_1: "well_formed m \<Longrightarrow> np_rot90 m 1 = rotated_ccw m"
  using column_of_flipped [of m]
  by (simp add: np_rot90_def swap01_def np_fliplr_def rotated_ccw_def)

lemma np_rot90_m1: "well_formed m \<Longrightarrow> np_rot90 m (- 1) = rotated_cw m"
  by (simp add: np_rot90_def swap01_def np_fliplr_def rotated_cw_def column_reversed)

text \<open>
  Lines 48 and 49 of \<^verbatim>\<open>rot90\<close> pass \<open>k = 1\<close> for \<^verbatim>\<open>ccw\<close> false, which is numpy's
  counter-clockwise rotation, and \<open>k = -1\<close> for \<^verbatim>\<open>ccw\<close> true, the clockwise one.
\<close>

lemma rot90_arr_direction:
  "well_formed m \<Longrightarrow> rot90_arr m False = rotated_ccw m \<and> rot90_arr m True = rotated_cw m"
  by (simp add: rot90_arr_def np_rot90_1 np_rot90_m1)

subsection \<open>Rolls\<close>

lemma roll_list_inverse: "roll_list (roll_list xs k) (- k) = xs"
proof (cases "xs = []")
  case True
  then show ?thesis by (simp add: roll_list_def)
next
  case False
  define n where "n = length xs"
  have n: "0 < n" using False by (simp add: n_def)
  define off where "off = nat (k mod int n)"
  have off: "off < n" using n by (simp add: off_def nat_less_iff)
  define ys where "ys = drop (n - off) xs @ take (n - off) xs"
  have ys: "roll_list xs k = ys" "length ys = n"
    using n by (simp_all add: roll_list_def ys_def n_def off_def Let_def)
  have off': "nat ((- k) mod int n) = (if off = 0 then 0 else n - off)"
  proof (cases "k mod int n = 0")
    case True
    then have "(- k) mod int n = 0" by (simp add: zmod_zminus1_eq_if)
    with True show ?thesis by (simp add: off_def)
  next
    case F: False
    then have "(- k) mod int n = int n - k mod int n" by (simp add: zmod_zminus1_eq_if)
    moreover have "0 \<le> k mod int n" using n by simp
    then have "0 < k mod int n" using F by linarith
    ultimately show ?thesis using off by (auto simp: off_def nat_diff_distrib)
  qed
  have "roll_list ys (- k) = xs"
  proof (cases "off = 0")
    case True
    then show ?thesis using off' n ys(2) by (simp add: roll_list_def ys_def n_def)
  next
    case F: False
    have "n - (n - off) = off" using off by simp
    then show ?thesis using off' n ys(2) F off
      by (simp add: roll_list_def Let_def) (simp add: ys_def n_def)
  qed
  then show ?thesis by (simp add: ys)
qed

lemma rolldown_arr_inverse: "rolldown_arr (rolldown_arr n px) (- px) = n"
  by (simp add: rolldown_arr_def np_roll0_def roll_list_inverse)

subsection \<open>Crop\<close>

lemma slice_bound_0: "slice_bound n 0 = 0"
  by (simp add: slice_bound_def)

lemma slice_bound_full: "slice_bound n (int n) = n"
  by (simp add: slice_bound_def)

lemma slice_list_full: "length xs = n \<Longrightarrow> slice_list n xs 0 (int n) = xs"
  by (simp add: slice_list_def slice_bound_0 slice_bound_full)

lemma np_slice_full:
  assumes "well_formed m"
  shows "np_slice m (0, int (ht m)) (0, int (wd m)) = m"
proof -
  have len: "length (rows m) = ht m" using assms by (simp add: well_formed_def)
  have "\<And>r. r \<in> set (rows m) \<Longrightarrow> length r = wd m"
    using assms by (simp add: well_formed_def list_all_iff)
  then have "map (\<lambda>r. slice_list (wd m) r 0 (int (wd m))) (rows m) = rows m"
    by (simp add: slice_list_full map_idI)
  then show ?thesis
    by (simp add: np_slice_def slice_list_full len slice_bound_0 slice_bound_full)
qed

text \<open>
  Line 181 of \<^verbatim>\<open>crop\<close> slices rows \<^verbatim>\<open>bounds[0][0]:bounds[0][1]\<close> and columns
  \<^verbatim>\<open>bounds[1][0]:bounds[1][1]\<close>: its bounds are a row range and a column range, not the
  pair of points of the function's docstring.
\<close>

lemma crop_arr_full_ranges:
  "well_formed m \<Longrightarrow> crop_arr m ((0, int (ht m)), (0, int (wd m))) = m"
  by (simp add: crop_arr_def np_slice_full)

lemma crop_arr_corner_points:
  "crop_arr img12 ((0, 0), (1, 2)) = \<lparr>ht = 0, wd = 1, ch = 3, rows = []\<rparr>"
  by (simp add: crop_arr_def np_slice_def slice_list_def slice_bound_def img12_def)

subsection \<open>Mirrors\<close>

text \<open>
  Lines 218 to 220 of \<^verbatim>\<open>mirrorleft\<close> keep the columns before \<open>W div 2\<close> and write column
  \<open>W - 1 - j\<close> of the image into every column \<open>j\<close> from \<open>W div 2\<close> on; for even \<open>W\<close> the
  right half of a row becomes its left half reversed.
\<close>

lemma mirrorleft_rows:
  "rows (mirrorleft_arr m) = map (\<lambda>r. take (wd m div 2) r @ drop (wd m div 2) (rev r)) (rows m)"
  by (simp add: mirrorleft_arr_def set_cols_from_def np_fliplr_def map2_same Let_def)

lemma mirrorleft_shape:
  "ht (mirrorleft_arr m) = ht m \<and> wd (mirrorleft_arr m) = wd m \<and> ch (mirrorleft_arr m) = ch m"
  by (simp add: mirrorleft_arr_def set_cols_from_def Let_def)

lemma mirrored_row_nth:
  assumes "j < length r"
  shows "(take (length r div 2) r @ drop (length r div 2) (rev r)) ! j =
         (if j < length r div 2 then r ! j else r ! (length r - 1 - j))"
proof (cases "j < length r div 2")
  case True
  then show ?thesis by (simp add: nth_append)
next
  case False
  then have "(take (length r div 2) r @ drop (length r div 2) (rev r)) ! j = rev r ! j"
    using assms by (simp add: nth_append min_def)
  then show ?thesis using False assms by (simp add: rev_nth)
qed

lemma mirrorleft_pixel:
  assumes "well_formed m" "i < ht m" "j < wd m"
  shows "rows (mirrorleft_arr m) ! i ! j =
         (if j < wd m div 2 then rows m ! i ! j else rows m ! i ! (wd m - 1 - j))"
proof -
  have len: "length (rows m ! i) = wd m" using assms by (simp add: wf_row_length)
  have "rows (mirrorleft_arr m) ! i =
        take (wd m div 2) (rows m ! i) @ drop (wd m div 2) (rev (rows m ! i))"
    using assms by (simp add: mirrorleft_rows wf_rows)
  then show ?thesis using mirrored_row_nth [of j "rows m ! i"] assms len by simp
qed

lemma mirrorleft_even_halves:
  assumes "well_formed m" "i < ht m" "even (wd m)"
  shows "drop (wd m div 2) (rows (mirrorleft_arr m) ! i) = rev (take (wd m div 2) (rows m ! i))"
    and "take (wd m div 2) (rows (mirrorleft_arr m) ! i) = take (wd m div 2) (rows m ! i)"
proof -
  have len: "length (rows m ! i) = wd m" using assms by (simp add: wf_row_length)
  have row: "rows (mirrorleft_arr m) ! i =
        take (wd m div 2) (rows m ! i) @ drop (wd m div 2) (rev (rows m ! i))"
    using assms by (simp add: mirrorleft_rows wf_rows)
  have "wd m - wd m div 2 = wd m div 2" using assms(3) by presburger
  then have "drop (wd m div 2) (rev (rows m ! i)) = rev (take (wd m div 2) (rows m ! i))"
    using len by (simp add: drop_rev)
  moreover have le: "wd m div 2 \<le> length (rows m ! i)" using len by simp
  ultimately show
    "drop (wd m div 2) (rows (mirrorleft_arr m) ! i) = rev (take (wd m div 2) (rows m ! i))"
    using row by simp
  show "take (wd m div 2) (rows (mirrorleft_arr m) ! i) = take (wd m div 2) (rows m ! i)"
    using row le by simp
qed

text \<open>
  From line 26 of the normalizer on, a mirror function given a reference to an array of
  rank 3 writes into that array and returns the same reference.
\<close>

lemma mirror_nd_rank3:
  assumes "h ! r = Ndarray (Rank3 a)"
  shows "mirror_nd f r h = (Inr r, h[r := Ndarray (Rank3 (f a))])"
  using assms by (simp add: mirror_nd_def force_RGB_shape_ref_def update_rank3_def)

subsection \<open>The fill loops of the shifts\<close>

lemma for_range_append:
  "for_range (xs @ ys) body s = bind (for_range xs body s) (for_range ys body)"
proof (induction xs arbitrary: s)
  case Nil
  then show ?case by simp
next
  case (Cons x xs)
  then show ?case by (cases "body x s") simp_all
qed

lemma for_range_Suc:
  "for_range [0..<Suc k] body s = bind (for_range [0..<k] body s) (body k)"
  by (simp add: for_range_append bind_def split: sum.splits)

lemma for_range_first_raises:
  "0 < n \<Longrightarrow> body 0 s = Inl e \<Longrightarrow> for_range [0..<n] body s = Inl e"
  by (simp add: upt_conv_Cons)

lemma py_index_in_range: "0 \<le> i \<Longrightarrow> i < int n \<Longrightarrow> py_index n i = Inr (nat i)"
  by (simp add: py_index_def)

lemma py_index_too_large: "int n \<le> i \<Longrightarrow> py_index n i = Inl IndexError"
  by (simp add: py_index_def)

lemma py_index_too_small: "i < - int n \<Longrightarrow> py_index n i = Inl IndexError"
  by (simp add: py_index_def)

lemma fill_end_step:
  assumes "k < p" "p \<le> length xs"
  shows "(take (length xs - k) xs @ replicate k v)[length xs - Suc k := v]
       = take (length xs - Suc k) xs @ replicate (Suc k) v"
proof -
  define d where "d = length xs - Suc k"
  have d: "d < length xs" "length xs - k = Suc d" using assms by (simp_all add: d_def)
  have "take (Suc d) xs = take d xs @ [xs ! d]" using d(1) by (simp add: take_Suc_conv_app_nth)
  then have "(take (Suc d) xs @ replicate k v)[d := v] = (take d xs @ [v]) @ replicate k v"
    using d(1) by (simp add: list_update_append)
  then show ?thesis using d by (simp add: d_def [symmetric] replicate_append_same)
qed

lemma fill_end_read:
  assumes "k < p" "p \<le> length xs" "0 < p"
  shows "(take (length xs - k) xs @ replicate k v) ! (length xs - p) = xs ! (length xs - p)"
proof -
  have "length xs - p < length xs - k" using assms by arith
  then show ?thesis by (simp add: nth_append)
qed

lemma copy_row_in_range:
  "s < ht img \<Longrightarrow> d < ht img \<Longrightarrow>
     copy_row img (int d) (int s) = Inr (img\<lparr>rows := (rows img)[d := rows img ! s]\<rparr>)"
  by (simp add: copy_row_def py_index_def)

lemma copy_col_in_range:
  "s < wd img \<Longrightarrow> d < wd img \<Longrightarrow>
     copy_col img (int d) (int s) = Inr (img\<lparr>rows := map (\<lambda>r. r[d := r ! s]) (rows img)\<rparr>)"
  by (simp add: copy_col_def py_index_def)

lemma shiftup_loop:
  assumes "length (rows img) = ht img" "0 < p" "p \<le> ht img" "k \<le> p"
  shows "for_range [0..<k]
           (\<lambda>i img. copy_row img (int (ht img) - int i - 1) (int (ht img) - int p)) img
       = Inr (img\<lparr>rows := take (ht img - k) (rows img) @ replicate k (rows img ! (ht img - p))\<rparr>)"
  using assms(4)
proof (induction k)
  case 0
  then show ?case using assms(1) by simp
next
  case (Suc k)
  define v where "v = rows img ! (ht img - p)"
  define t where "t = img\<lparr>rows := take (ht img - k) (rows img) @ replicate k v\<rparr>"
  have loop: "for_range [0..<k]
           (\<lambda>i img. copy_row img (int (ht img) - int i - 1) (int (ht img) - int p)) img = Inr t"
    using Suc by (simp add: t_def v_def)
  have k: "k < p" using Suc.prems by simp
  have idx: "int (ht t) - int k - 1 = int (ht img - Suc k)" "int (ht t) - int p = int (ht img - p)"
    using k assms(3) by (simp_all add: t_def)
  have rng: "ht img - p < ht t" "ht img - Suc k < ht t"
    using k assms(2,3) by (simp_all add: t_def)
  have rd: "rows t ! (ht img - p) = v"
    using fill_end_read [of k p "rows img" v] k assms by (simp add: t_def v_def)
  have step: "copy_row t (int (ht t) - int k - 1) (int (ht t) - int p)
      = Inr (t\<lparr>rows := (rows t)[ht img - Suc k := v]\<rparr>)"
    unfolding idx using copy_row_in_range [OF rng] rd by simp
  have "(rows t)[ht img - Suc k := v]
      = take (ht img - Suc k) (rows img) @ replicate (Suc k) v"
    using fill_end_step [of k p "rows img" v] k assms by (simp add: t_def)
  then show ?case
    unfolding for_range_Suc loop using step by (simp add: t_def v_def)
qed


lemma shiftleft_loop:
  assumes "list_all (\<lambda>r. length r = wd img) (rows img)" "0 < p" "p \<le> wd img" "k \<le> p"
  shows "for_range [0..<k]
           (\<lambda>i img. copy_col img (int (wd img) - int i - 1) (int (wd img) - int p)) img
       = Inr (img\<lparr>rows := map (\<lambda>r. take (wd img - k) r @ replicate k (r ! (wd img - p)))
                                (rows img)\<rparr>)"
  using assms(4)
proof (induction k)
  case 0
  have "map (\<lambda>r. take (wd img) r) (rows img) = rows img"
    using assms(1) by (simp add: list_all_iff map_idI)
  then show ?case by simp
next
  case (Suc k)
  define g where "g = (\<lambda>k (r :: 'a list list). take (wd img - k) r @ replicate k (r ! (wd img - p)))"
  define t where "t = img\<lparr>rows := map (g k) (rows img)\<rparr>"
  have loop: "for_range [0..<k]
           (\<lambda>i img. copy_col img (int (wd img) - int i - 1) (int (wd img) - int p)) img = Inr t"
    using Suc by (simp add: t_def g_def)
  have k: "k < p" using Suc.prems by simp
  have idx: "int (wd t) - int k - 1 = int (wd img - Suc k)" "int (wd t) - int p = int (wd img - p)"
    using k assms(3) by (simp_all add: t_def)
  have rng: "wd img - p < wd t" "wd img - Suc k < wd t"
    using k assms(2,3) by (simp_all add: t_def)
  have step: "copy_col t (int (wd t) - int k - 1) (int (wd t) - int p)
      = Inr (t\<lparr>rows := map (\<lambda>r. r[wd img - Suc k := r ! (wd img - p)]) (rows t)\<rparr>)"
    unfolding idx using copy_col_in_range [OF rng] by simp
  have row: "(g k r)[wd img - Suc k := g k r ! (wd img - p)] = g (Suc k) r"
    if "r \<in> set (rows img)" for r
  proof -
    have len: "length r = wd img" using that assms(1) by (simp add: list_all_iff)
    have "g k r ! (wd img - p) = r ! (wd img - p)"
      using fill_end_read [of k p r "r ! (wd img - p)"] k assms(2,3) len by (simp add: g_def)
    then show ?thesis
      using fill_end_step [of k p r "r ! (wd img - p)"] k assms(3) len by (simp add: g_def)
  qed
  have "map (\<lambda>r. r[wd img - Suc k := r ! (wd img - p)]) (rows t) = map (g (Suc k)) (rows img)"
    using row by (simp add: t_def)
  then show ?case
    unfolding for_range_Suc loop using step by (simp add: t_def g_def)
qed

lemma roll_list_neg:
  assumes "0 < p" "p < length xs"
  shows "roll_list xs (- int p) = drop p xs @ take p xs"
proof -
  have "(- int p) mod int (length xs) = int (length xs) - int p"
    using assms by (simp add: zmod_zminus1_eq_if)
  then have "nat ((- int p) mod int (length xs)) = length xs - p" by simp
  moreover have "length xs - (length xs - p) = p" using assms by simp
  ultimately show ?thesis using assms by (simp add: roll_list_def Let_def)
qed

text \<open>
  Lines 319 to 321 of \<^verbatim>\<open>shiftup\<close>, on the array rolled up by \<open>px\<close>, copy its row \<open>H - px\<close>,
  which is row \<open>0\<close> of the image, into the last \<open>px\<close> rows; lines 341 to 343 of
  \<^verbatim>\<open>shiftleft\<close> do the same with columns.
\<close>

lemma shiftup_fill_copies_row_0:
  assumes "well_formed m" "0 < px" "px < int (ht m)"
  shows "shiftup_fill (rolldown_arr m (- px)) px
       = Inr (m\<lparr>rows := drop (nat px) (rows m) @ replicate (nat px) (rows m ! 0)\<rparr>)"
proof -
  define p where "p = nat px"
  have p: "0 < p" "p < ht m" "px = int p" "length (rows m) = ht m"
    using assms by (simp_all add: p_def wf_rows)
  define rolled where "rolled = m\<lparr>rows := drop p (rows m) @ take p (rows m)\<rparr>"
  have r: "rolldown_arr m (- px) = rolled"
    using p roll_list_neg [of p "rows m"] by (simp add: rolldown_arr_def np_roll0_def rolled_def)
  have len: "length (rows rolled) = ht rolled" "p \<le> ht rolled" "ht rolled = ht m"
    using p by (simp_all add: rolled_def)
  have "shiftup_fill rolled px
      = Inr (rolled\<lparr>rows := take (ht rolled - p) (rows rolled)
                               @ replicate p (rows rolled ! (ht rolled - p))\<rparr>)"
    using shiftup_loop [OF len(1) p(1) len(2), of p] p by (simp add: shiftup_fill_def)
  moreover have "take (ht rolled - p) (rows rolled) = drop p (rows m)"
    using p by (simp add: rolled_def)
  moreover have "rows rolled ! (ht rolled - p) = rows m ! 0"
    using p by (simp add: rolled_def nth_append)
  ultimately show ?thesis
    using r by (simp add: rolled_def p_def)
qed

lemma shiftleft_fill_copies_column_0:
  assumes "well_formed m" "0 < px" "px < int (wd m)"
  shows "shiftleft_fill (rollright_arr m (- px)) px
       = Inr (m\<lparr>rows := map (\<lambda>r. drop (nat px) r @ replicate (nat px) (r ! 0)) (rows m)\<rparr>)"
proof -
  define p where "p = nat px"
  have p: "0 < p" "p < wd m" "px = int p"
    using assms by (simp_all add: p_def)
  have lens: "\<And>r. r \<in> set (rows m) \<Longrightarrow> length r = wd m"
    using assms(1) by (simp add: well_formed_def list_all_iff)
  define rolled where "rolled = m\<lparr>rows := map (\<lambda>r. drop p r @ take p r) (rows m)\<rparr>"
  have "map (\<lambda>r. roll_list r (- int p)) (rows m) = map (\<lambda>r. drop p r @ take p r) (rows m)"
  proof (rule map_cong [OF refl])
    fix r assume "r \<in> set (rows m)"
    then have "p < length r" using lens p by simp
    then show "roll_list r (- int p) = drop p r @ take p r" using p by (simp add: roll_list_neg)
  qed
  then have r: "rollright_arr m (- px) = rolled"
    using p by (simp add: rollright_arr_def np_roll1_def rolled_def)
  have len: "list_all (\<lambda>r. length r = wd rolled) (rows rolled)" "p \<le> wd rolled"
    using p lens by (simp_all add: rolled_def list_all_iff)
  have "shiftleft_fill rolled px
      = Inr (rolled\<lparr>rows := map (\<lambda>r. take (wd rolled - p) r @ replicate p (r ! (wd rolled - p)))
                                   (rows rolled)\<rparr>)"
    using shiftleft_loop [OF len(1) p(1) len(2), of p] p by (simp add: shiftleft_fill_def)
  moreover have "map (\<lambda>r. take (wd rolled - p) r @ replicate p (r ! (wd rolled - p))) (rows rolled)
      = map (\<lambda>r. drop p r @ replicate p (r ! 0)) (rows m)"
    using p lens by (simp add: rolled_def nth_append)
  ultimately show ?thesis
    using r by (simp add: rolled_def p_def)
qed

text \<open>
  Lines 297 to 299 of \<^verbatim>\<open>shiftdown\<close> read row \<open>px\<close> of the rolled array, and lines 363 to
  365 of \<^verbatim>\<open>shiftright\<close> its column \<open>px\<close>: an index out of range once \<open>px\<close> reaches the
  extent.
\<close>

lemma shiftdown_fill_index_out_of_range:
  assumes "0 < px" "int (ht m) \<le> px"
  shows "shiftdown_fill (rolldown_arr m px) px = Inl IndexError"
proof -
  have "copy_row (rolldown_arr m px) (int 0) px = Inl IndexError"
    using assms by (simp add: copy_row_def py_index_too_large rolldown_arr_def np_roll0_def)
  then show ?thesis
    using assms for_range_first_raises [of "nat px" _ "rolldown_arr m px" IndexError]
    by (simp add: shiftdown_fill_def)
qed

lemma shiftright_fill_index_out_of_range:
  assumes "0 < px" "int (wd m) \<le> px"
  shows "shiftright_fill (rollright_arr m px) px = Inl IndexError"
proof -
  have "copy_col (rollright_arr m px) (int 0) px = Inl IndexError"
    using assms by (simp add: copy_col_def py_index_too_large rollright_arr_def np_roll1_def)
  then show ?thesis
    using assms for_range_first_raises [of "nat px" _ "rollright_arr m px" IndexError]
    by (simp add: shiftright_fill_def)
qed

end
